theory Spec2Isabelle
  imports Complex_Main
begin

section \<open>The playback controller of \<open>src/components/CustomVideoPlayer.tsx\<close>\<close>

text \<open>
  The component is a React function component. Its \<open>useState\<close> cells are the record
  \<open>State\<close>, its props the record \<open>Props\<close>, the one \<open><video>\<close> element it owns the record
  \<open>Video\<close>, and everything together (with the refs, the listeners the effects have
  registered and the log of calls made to the platform) the record \<open>World\<close>. Every handler
  of the source is a function on \<open>World\<close>; the values a handler closes over are explicit
  arguments, because React handlers see the values of the render that created them.
  JavaScript numbers are modelled as reals: the model covers finite numbers and no
  rounding (\<open>Math.max\<close> and \<open>Math.min\<close> are exact on doubles).
  The presentational cells \<open>showSettings\<close>, \<open>showInfo\<close>, \<open>quality\<close> and \<open>showSubtitles\<close>
  feed no effect and no handler of the controller and are left out.
\<close>

subsection \<open>Props and state\<close>

datatype StreamType = Live | Movie | Episode

record EpisodeData =
  seriesId :: "string option"
  seasonNumber :: "int option"
  episodeNumber :: "int option"
  totalEpisodes :: "int option"
  nextEpisodeId :: "string option"
  prevEpisodeId :: "string option"

text \<open>
  A JavaScript object handed in by the caller is its address together with its contents:
  React compares a dependency by \<open>Object.is\<close>, which for objects compares the address.
\<close>

type_synonym 'a object = "nat \<times> 'a"

record Props =
  streamUrl :: string
  streamType :: StreamType
  episodeData :: "EpisodeData object option"

record State =
  isPlaying :: bool
  currentTime :: real
  duration :: real
  bufferedTime :: real
  volume :: real
  isMuted :: bool
  playbackRate :: real
  isFullscreen :: bool
  showControls :: bool
  isBuffering :: bool
  error :: "string option"
  isDragging :: bool
  autoPlayNext :: bool

text \<open>The initial values of the \<open>useState\<close> calls (lines 74-94).\<close>

definition initialState :: State where
  "initialState =
     \<lparr>isPlaying = False, currentTime = 0, duration = 0, bufferedTime = 0, volume = 8 / 10,
      isMuted = False, playbackRate = 1, isFullscreen = False, showControls = True,
      isBuffering = False, error = None, isDragging = False, autoPlayNext = True\<rparr>"

subsection \<open>The platform: element, engine, timer, call log\<close>

text \<open>
  The closure of the eleven media listeners one run of the video-init effect registers:
  \<open>handleTimeUpdate\<close> is \<open>updateProgress\<close> (which closes over \<open>isDragging\<close>), \<open>handleEnded\<close>
  closes over \<open>streamType\<close>, \<open>episodeData\<close> and \<open>autoPlayNext\<close>.
\<close>

record Listeners =
  l_isDragging :: bool
  l_streamType :: StreamType
  l_episodeData :: "EpisodeData object option"
  l_autoPlayNext :: bool

record Video =
  v_src :: string
  v_currentTime :: real
  v_duration :: real
  v_buffered :: "(real \<times> real) list"
  v_volume :: real
  v_muted :: bool
  v_playbackRate :: real
  v_error :: "string option"
  listeners :: "Listeners option"

definition newVideo :: Video where
  "newVideo =
     \<lparr>v_src = [], v_currentTime = 0, v_duration = 0, v_buffered = [], v_volume = 1,
      v_muted = False, v_playbackRate = 1, v_error = None, listeners = None\<rparr>"

text \<open>The options object passed to \<open>new Hls(...)\<close>; \<open>None\<close> is an option not passed.\<close>

record HlsConfig =
  enableWorker :: "bool option"
  lowLatencyMode :: "bool option"
  backBufferLength :: "nat option"

definition noConfig :: HlsConfig where
  "noConfig = \<lparr>enableWorker = None, lowLatencyMode = None, backBufferLength = None\<rparr>"

datatype HlsEvent = ERROR | MANIFEST_PARSED

record Hls =
  config :: HlsConfig
  source :: string
  handlers :: "HlsEvent list"

datatype ErrorType = NETWORK_ERROR | MEDIA_ERROR | KEY_SYSTEM_ERROR | MUX_ERROR | OTHER_ERROR

record ErrorData =
  fatal :: bool
  errType :: ErrorType
  details :: string

text \<open>
  A handle returned by \<open>setTimeout\<close>: when it is due (milliseconds), the \<open>isPlaying\<close> its
  callback closes over, and whether it is still pending (not fired, not cleared).
\<close>

record Timeout =
  due :: nat
  t_isPlaying :: bool
  pending :: bool

text \<open>The closure of the document-level \<open>keydown\<close> listener (lines 289-329).\<close>

record KeyClosure =
  k_currentTime :: real
  k_volume :: real
  k_isFullscreen :: bool
  k_isPlaying :: bool
  k_duration :: real

datatype Call =
    VideoPlay
  | VideoPause
  | VideoSetCurrentTime real
  | HlsNew HlsConfig
  | HlsLoadSource string
  | HlsAttachMedia
  | HlsOn HlsEvent
  | HlsDestroy
  | HlsStartLoad
  | HlsRecoverMediaError
  | RequestFullscreen
  | ExitFullscreen
  | ConsoleLog string
  | ConsoleWarn string
  | ConsoleError string
  | OnBack
  | WindowReload

record World =
  props :: Props
  state :: State
  mounted :: bool
  committed :: "(Props \<times> State) option"
  video :: Video
  videoRef :: bool
  hlsRef :: "Hls option"
  controlsTimeoutRef :: "Timeout option"
  containerListeners :: "bool option"
  keydownListener :: "KeyClosure option"
  fullscreenListener :: bool
  initCleanup :: bool
  controlsCleanup :: bool
  hlsSupported :: bool
  canPlayNativeHls :: bool
  fullscreenElement :: bool
  calls :: "Call list"

text \<open>
  \<open>videoRef\<close> says whether \<open>videoRef.current\<close> (and with it \<open>playerContainerRef.current\<close>) is
  the element: both elements are rendered exactly when \<open>error\<close> is null (line 512).
  \<open>committed\<close> holds the props and state of the last render whose effects ran;
  \<open>initCleanup\<close> and \<open>controlsCleanup\<close> say whether the last run of that effect returned a
  cleanup function (an early \<open>return\<close> returns none). \<open>hlsSupported\<close> is
  \<open>Hls.isSupported()\<close>, \<open>canPlayNativeHls\<close> is
  \<open>video.canPlayType('application/vnd.apple.mpegurl')\<close>, \<open>fullscreenElement\<close> is
  \<open>!!document.fullscreenElement\<close>.
\<close>

definition call :: "Call \<Rightarrow> World \<Rightarrow> World" where
  "call c w = w\<lparr>calls := calls w @ [c]\<rparr>"

subsection \<open>State setters\<close>

definition setIsPlaying :: "bool \<Rightarrow> World \<Rightarrow> World" where
  "setIsPlaying b w = w\<lparr>state := (state w)\<lparr>isPlaying := b\<rparr>\<rparr>"

definition setCurrentTime :: "real \<Rightarrow> World \<Rightarrow> World" where
  "setCurrentTime t w = w\<lparr>state := (state w)\<lparr>currentTime := t\<rparr>\<rparr>"

definition setDuration :: "real \<Rightarrow> World \<Rightarrow> World" where
  "setDuration d w = w\<lparr>state := (state w)\<lparr>duration := d\<rparr>\<rparr>"

definition setBufferedTime :: "real \<Rightarrow> World \<Rightarrow> World" where
  "setBufferedTime t w = w\<lparr>state := (state w)\<lparr>bufferedTime := t\<rparr>\<rparr>"

definition setVolume :: "real \<Rightarrow> World \<Rightarrow> World" where
  "setVolume v w = w\<lparr>state := (state w)\<lparr>volume := v\<rparr>\<rparr>"

definition setIsMuted :: "bool \<Rightarrow> World \<Rightarrow> World" where
  "setIsMuted b w = w\<lparr>state := (state w)\<lparr>isMuted := b\<rparr>\<rparr>"

definition setPlaybackRate :: "real \<Rightarrow> World \<Rightarrow> World" where
  "setPlaybackRate r w = w\<lparr>state := (state w)\<lparr>playbackRate := r\<rparr>\<rparr>"

definition setIsFullscreen :: "bool \<Rightarrow> World \<Rightarrow> World" where
  "setIsFullscreen b w = w\<lparr>state := (state w)\<lparr>isFullscreen := b\<rparr>\<rparr>"

definition setShowControls :: "bool \<Rightarrow> World \<Rightarrow> World" where
  "setShowControls b w = w\<lparr>state := (state w)\<lparr>showControls := b\<rparr>\<rparr>"

definition setIsBuffering :: "bool \<Rightarrow> World \<Rightarrow> World" where
  "setIsBuffering b w = w\<lparr>state := (state w)\<lparr>isBuffering := b\<rparr>\<rparr>"

definition setError :: "string option \<Rightarrow> World \<Rightarrow> World" where
  "setError e w = w\<lparr>state := (state w)\<lparr>error := e\<rparr>\<rparr>"

definition setIsDragging :: "bool \<Rightarrow> World \<Rightarrow> World" where
  "setIsDragging b w = w\<lparr>state := (state w)\<lparr>isDragging := b\<rparr>\<rparr>"

definition setAutoPlayNext :: "bool \<Rightarrow> World \<Rightarrow> World" where
  "setAutoPlayNext b w = w\<lparr>state := (state w)\<lparr>autoPlayNext := b\<rparr>\<rparr>"

lemmas setters =
  setIsPlaying_def setCurrentTime_def setDuration_def setBufferedTime_def setVolume_def
  setIsMuted_def setPlaybackRate_def setIsFullscreen_def setShowControls_def
  setIsBuffering_def setError_def setIsDragging_def setAutoPlayNext_def call_def

subsection \<open>Commands (lines 97-108 and 332-380)\<close>

text \<open>\<open>updateProgress\<close> closes over \<open>isDragging\<close>; it reads the element through the ref.\<close>

definition updateProgress :: "bool \<Rightarrow> World \<Rightarrow> World" where
  "updateProgress c_isDragging w =
     (if videoRef w \<and> \<not> c_isDragging then
        (let w1 = setCurrentTime (v_currentTime (video w)) w
         in if v_buffered (video w1) \<noteq> []
            then setBufferedTime (snd (last (v_buffered (video w1)))) w1
            else w1)
      else w)"

text \<open>
  \<open>video.play()\<close> returns a promise whose rejection is handed to \<open>console.error\<close>; whether
  the platform then plays is the platform's answer (a later \<open>play\<close> event), so the command
  only records the call.
\<close>

definition togglePlayPause :: "bool \<Rightarrow> World \<Rightarrow> World" where
  "togglePlayPause c_isPlaying w =
     (if \<not> videoRef w then w
      else if c_isPlaying then call VideoPause w
      else call VideoPlay w)"

definition toggleMute :: "World \<Rightarrow> World" where
  "toggleMute w =
     (if \<not> videoRef w then w
      else w\<lparr>video := (video w)\<lparr>v_muted := \<not> v_muted (video w)\<rparr>\<rparr>)"

definition changeVolume :: "real \<Rightarrow> World \<Rightarrow> World" where
  "changeVolume newVolume w =
     (if \<not> videoRef w then w
      else w\<lparr>video := (video w)\<lparr>v_volume := max 0 (min 1 newVolume)\<rparr>\<rparr>)"

text \<open>\<open>seek\<close> closes over \<open>duration\<close> and \<open>isPlaying\<close> (its \<open>useCallback\<close> dependencies).\<close>

definition seek :: "real \<Rightarrow> bool \<Rightarrow> real \<Rightarrow> World \<Rightarrow> World" where
  "seek c_duration c_isPlaying time w =
     (if \<not> videoRef w then w
      else
        (let clampedTime = max 0 (min c_duration time);
             wasPlaying = c_isPlaying;
             w1 = call (VideoSetCurrentTime clampedTime)
                    (w\<lparr>video := (video w)\<lparr>v_currentTime := clampedTime\<rparr>\<rparr>);
             w2 = setCurrentTime clampedTime w1
         in if wasPlaying then call VideoPlay w2 else w2))"

definition toggleFullscreen :: "World \<Rightarrow> World" where
  "toggleFullscreen w =
     (if \<not> videoRef w then w
      else if \<not> fullscreenElement w then call RequestFullscreen w
      else call ExitFullscreen w)"

definition changePlaybackRate :: "real \<Rightarrow> World \<Rightarrow> World" where
  "changePlaybackRate rate w =
     (if \<not> videoRef w then w
      else setPlaybackRate rate (w\<lparr>video := (video w)\<lparr>v_playbackRate := rate\<rparr>\<rparr>))"

subsection \<open>The video-init effect (lines 133-235)\<close>

text \<open>\<open>String.prototype.endsWith\<close>.\<close>

definition endsWith :: "string \<Rightarrow> string \<Rightarrow> bool" where
  "endsWith s suf = (length suf \<le> length s \<and> drop (length s - length suf) s = suf)"

text \<open>A JavaScript string is truthy when it is present and not empty.\<close>

definition truthy :: "string option \<Rightarrow> bool" where
  "truthy x = (case x of None \<Rightarrow> False | Some s \<Rightarrow> s \<noteq> [])"

text \<open>The handler registered with \<open>hls.on(Hls.Events.ERROR, ...)\<close> (lines 153-160).\<close>

definition hlsOnError :: "ErrorData \<Rightarrow> World \<Rightarrow> World" where
  "hlsOnError d w =
     (if fatal d then
        call (ConsoleError (''HLS.js fatal error: '' @ details d))
          (setError (Some (''Playback error: '' @ details d)) w)
      else call (ConsoleWarn (''HLS.js non-fatal error: '' @ details d)) w)"

text \<open>The media listeners (lines 172-201); each closes over the element \<open>video\<close>.\<close>

definition handleLoadStart :: "World \<Rightarrow> World" where
  "handleLoadStart w = setIsBuffering True w"

definition handleLoadedMetadata :: "World \<Rightarrow> World" where
  "handleLoadedMetadata w = setIsBuffering False (setDuration (v_duration (video w)) w)"

definition handleCanPlay :: "World \<Rightarrow> World" where
  "handleCanPlay w = setIsBuffering False w"

definition handlePlay :: "World \<Rightarrow> World" where
  "handlePlay w = setIsPlaying True w"

definition handlePause :: "World \<Rightarrow> World" where
  "handlePause w = setIsPlaying False w"

definition handleWaiting :: "World \<Rightarrow> World" where
  "handleWaiting w = setIsBuffering True w"

definition handlePlaying :: "World \<Rightarrow> World" where
  "handlePlaying w = setIsBuffering False w"

definition handleVolumeChange :: "World \<Rightarrow> World" where
  "handleVolumeChange w = setIsMuted (v_muted (video w)) (setVolume (v_volume (video w)) w)"

definition handleError :: "World \<Rightarrow> World" where
  "handleError w =
     (let w1 = (if hlsRef w = None
                then setError (Some (''Video error: '' @
                       (if truthy (v_error (video w)) then the (v_error (video w))
                        else ''Unknown error''))) w
                else w)
      in setIsBuffering False w1)"

definition handleEnded :: "Listeners \<Rightarrow> World \<Rightarrow> World" where
  "handleEnded l w =
     (let w1 = setIsPlaying False w
      in if l_streamType l = Episode
            \<and> truthy (case l_episodeData l of None \<Rightarrow> None | Some e \<Rightarrow> nextEpisodeId (snd e))
            \<and> l_autoPlayNext l
         then call (ConsoleLog ''Auto-playing next episode...'') w1
         else w1)"

text \<open>
  The effect body. It reads \<open>volume\<close>, \<open>isMuted\<close>, \<open>playbackRate\<close> and the dependencies from
  the render it belongs to; its own \<open>setError\<close> and \<open>setIsBuffering\<close> touch none of them.
\<close>

definition initEffect :: "World \<Rightarrow> World" where
  "initEffect w =
     (if \<not> videoRef w \<or> streamUrl (props w) = [] then w\<lparr>initCleanup := False\<rparr>
      else
        (let s = state w;
             url = streamUrl (props w);
             w1 = setIsBuffering True (setError None w);
             w2 = w1\<lparr>video := (video w1)\<lparr>v_volume := volume s, v_muted := isMuted s,
                                          v_playbackRate := playbackRate s\<rparr>\<rparr>;
             w3 = (if endsWith url ''.m3u8'' then
                     (if hlsSupported w2 then
                        w2\<lparr>hlsRef := Some \<lparr>config = noConfig, source = url, handlers = [ERROR]\<rparr>,
                            calls := calls w2 @
                              [HlsNew noConfig, HlsLoadSource url, HlsAttachMedia, HlsOn ERROR]\<rparr>
                      else if canPlayNativeHls w2 then
                        w2\<lparr>video := (video w2)\<lparr>v_src := url\<rparr>\<rparr>
                      else
                        setIsBuffering False
                          (setError (Some ''HLS playback is not supported in this browser.'') w2))
                   else w2\<lparr>video := (video w2)\<lparr>v_src := url\<rparr>\<rparr>)
         in w3\<lparr>video := (video w3)\<lparr>listeners :=
                  Some \<lparr>l_isDragging = isDragging s, l_streamType = streamType (props w),
                        l_episodeData = episodeData (props w),
                        l_autoPlayNext = autoPlayNext s\<rparr>\<rparr>,
               initCleanup := True\<rparr>))"

text \<open>The cleanup the effect returns (lines 217-234).\<close>

definition initCleanupFn :: "World \<Rightarrow> World" where
  "initCleanupFn w =
     (let w1 = (if hlsRef w \<noteq> None then (call HlsDestroy w)\<lparr>hlsRef := None\<rparr> else w)
      in w1\<lparr>video := (video w1)\<lparr>listeners := None, v_src := []\<rparr>\<rparr>)"

subsection \<open>The controls-visibility effect (lines 238-276)\<close>

definition clearTimeout :: "Timeout option \<Rightarrow> Timeout option" where
  "clearTimeout r = (case r of None \<Rightarrow> None | Some t \<Rightarrow> Some (t\<lparr>pending := False\<rparr>))"

text \<open>\<open>now\<close> is the time of the call in milliseconds; \<open>setTimeout(f, 3000)\<close> is due 3000 later.\<close>

definition showControlsWithTimeout :: "bool \<Rightarrow> nat \<Rightarrow> World \<Rightarrow> World" where
  "showControlsWithTimeout c_isPlaying now w =
     (let w1 = setShowControls True w;
          w2 = (if controlsTimeoutRef w1 \<noteq> None
                then w1\<lparr>controlsTimeoutRef := clearTimeout (controlsTimeoutRef w1)\<rparr>
                else w1)
      in w2\<lparr>controlsTimeoutRef :=
              Some \<lparr>due = now + 3000, t_isPlaying = c_isPlaying, pending = True\<rparr>\<rparr>)"

text \<open>The callback handed to \<open>setTimeout\<close>.\<close>

definition timeoutCallback :: "bool \<Rightarrow> World \<Rightarrow> World" where
  "timeoutCallback c_isPlaying w = (if c_isPlaying then setShowControls False w else w)"

definition handleMouseEnter :: "World \<Rightarrow> World" where
  "handleMouseEnter w = setShowControls True w"

definition handleMouseLeave :: "bool \<Rightarrow> World \<Rightarrow> World" where
  "handleMouseLeave c_isPlaying w = (if c_isPlaying then setShowControls False w else w)"

definition controlsEffect :: "World \<Rightarrow> World" where
  "controlsEffect w =
     (if \<not> videoRef w then w\<lparr>controlsCleanup := False\<rparr>
      else w\<lparr>containerListeners := Some (isPlaying (state w)), controlsCleanup := True\<rparr>)"

definition controlsCleanupFn :: "World \<Rightarrow> World" where
  "controlsCleanupFn w =
     (let w1 = w\<lparr>containerListeners := None\<rparr>
      in if controlsTimeoutRef w1 \<noteq> None
         then w1\<lparr>controlsTimeoutRef := clearTimeout (controlsTimeoutRef w1)\<rparr>
         else w1)"

subsection \<open>Fullscreen and keyboard (lines 279-329)\<close>

definition handleFullscreenChange :: "World \<Rightarrow> World" where
  "handleFullscreenChange w = setIsFullscreen (fullscreenElement w) w"

definition handleKeyDown :: "KeyClosure \<Rightarrow> string \<Rightarrow> World \<Rightarrow> World" where
  "handleKeyDown k key w =
     (if \<not> videoRef w then w
      else if key = '' '' \<or> key = ''k'' then togglePlayPause (k_isPlaying k) w
      else if key = ''m'' then toggleMute w
      else if key = ''f'' then toggleFullscreen w
      else if key = ''ArrowLeft'' then seek (k_duration k) (k_isPlaying k) (k_currentTime k - 10) w
      else if key = ''ArrowRight'' then seek (k_duration k) (k_isPlaying k) (k_currentTime k + 10) w
      else if key = ''ArrowUp'' then changeVolume (min 1 (k_volume k + 1 / 10)) w
      else if key = ''ArrowDown'' then changeVolume (max 0 (k_volume k - 1 / 10)) w
      else if key = ''Escape'' then (if k_isFullscreen k then call ExitFullscreen w else w)
      else w)"

definition keyboardEffect :: "World \<Rightarrow> World" where
  "keyboardEffect w =
     w\<lparr>keydownListener :=
         Some \<lparr>k_currentTime = currentTime (state w), k_volume = volume (state w),
               k_isFullscreen = isFullscreen (state w), k_isPlaying = isPlaying (state w),
               k_duration = duration (state w)\<rparr>\<rparr>"

subsection \<open>Handlers bound in the markup (lines 536-783)\<close>

text \<open>The click handler of the progress bar; \<open>pos\<close> is the click position as a fraction.\<close>

definition progressBarClick :: "real \<Rightarrow> World \<Rightarrow> World" where
  "progressBarClick pos w =
     (let newTime = pos * duration (state w)
      in if videoRef w then
           (let w1 = call (VideoSetCurrentTime newTime)
                       (w\<lparr>video := (video w)\<lparr>v_currentTime := newTime\<rparr>\<rparr>);
                w2 = setCurrentTime newTime w1
            in if isPlaying (state w) then call VideoPlay w2 else w2)
         else w)"

text \<open>The scrubber: \<open>onChange\<close> with the parsed value, \<open>onMouseUp\<close> and \<open>onTouchEnd\<close>.\<close>

definition scrubberChange :: "real \<Rightarrow> World \<Rightarrow> World" where
  "scrubberChange time w =
     (let w1 = setCurrentTime time (setIsDragging True w)
      in if videoRef w1
         then call (VideoSetCurrentTime time) (w1\<lparr>video := (video w1)\<lparr>v_currentTime := time\<rparr>\<rparr>)
         else w1)"

definition scrubberRelease :: "World \<Rightarrow> World" where
  "scrubberRelease w =
     (let w1 = setIsDragging False w
      in if isPlaying (state w) \<and> videoRef w then call VideoPlay w1 else w1)"

subsection \<open>Rendering: refs and effects\<close>

text \<open>
  After every handler React renders again and commits: the refs follow the markup, then,
  for each effect whose dependency array changed, the cleanup the effect returned last
  time runs (all cleanups first, in the order of the source), then the effect bodies run
  in the order of the source. The state an effect body sets (\<open>error\<close>, \<open>isBuffering\<close>) is
  no dependency of any effect, so the render that follows only moves the refs.
\<close>

definition depsVolume :: "Props \<Rightarrow> State \<Rightarrow> real" where
  "depsVolume p s = volume s"

definition depsMuted :: "Props \<Rightarrow> State \<Rightarrow> bool" where
  "depsMuted p s = isMuted s"

definition depsRate :: "Props \<Rightarrow> State \<Rightarrow> real" where
  "depsRate p s = playbackRate s"

text \<open>
  \<open>[streamUrl, updateProgress, streamType, episodeData, autoPlayNext]\<close>: \<open>updateProgress\<close> is
  a new function exactly when \<open>isDragging\<close> changed, and \<open>episodeData\<close> is compared by its
  address, so an equal object at a new address counts as changed.
\<close>

definition depsInit ::
  "Props \<Rightarrow> State \<Rightarrow> string \<times> bool \<times> StreamType \<times> nat option \<times> bool" where
  "depsInit p s =
     (streamUrl p, isDragging s, streamType p, map_option fst (episodeData p), autoPlayNext s)"

definition depsControls :: "Props \<Rightarrow> State \<Rightarrow> bool" where
  "depsControls p s = isPlaying s"

definition depsKeyboard :: "Props \<Rightarrow> State \<Rightarrow> real \<times> real \<times> bool" where
  "depsKeyboard p s = (currentTime s, volume s, isFullscreen s)"

definition changed :: "(Props \<Rightarrow> State \<Rightarrow> 'a) \<Rightarrow> World \<Rightarrow> bool" where
  "changed deps w =
     (case committed w of None \<Rightarrow> True
      | Some (p, s) \<Rightarrow> deps p s \<noteq> deps (props w) (state w))"

definition attachRefs :: "World \<Rightarrow> World" where
  "attachRefs w = w\<lparr>videoRef := (mounted w \<and> error (state w) = None)\<rparr>"

definition volumeEffect :: "World \<Rightarrow> World" where
  "volumeEffect w =
     (if videoRef w then w\<lparr>video := (video w)\<lparr>v_volume := volume (state w)\<rparr>\<rparr> else w)"

definition mutedEffect :: "World \<Rightarrow> World" where
  "mutedEffect w =
     (if videoRef w then w\<lparr>video := (video w)\<lparr>v_muted := isMuted (state w)\<rparr>\<rparr> else w)"

definition rateEffect :: "World \<Rightarrow> World" where
  "rateEffect w =
     (if videoRef w then w\<lparr>video := (video w)\<lparr>v_playbackRate := playbackRate (state w)\<rparr>\<rparr>
      else w)"

text \<open>Running a cleanup means running the function the effect returned, if it returned one.\<close>

definition runInitCleanup :: "World \<Rightarrow> World" where
  "runInitCleanup w = (if initCleanup w then initCleanupFn w else w)"

definition runControlsCleanup :: "World \<Rightarrow> World" where
  "runControlsCleanup w = (if controlsCleanup w then controlsCleanupFn w else w)"

definition keyboardCleanup :: "World \<Rightarrow> World" where
  "keyboardCleanup w = w\<lparr>keydownListener := None\<rparr>"

definition fullscreenEffect :: "World \<Rightarrow> World" where
  "fullscreenEffect w = w\<lparr>fullscreenListener := True\<rparr>"

definition onChange :: "bool \<Rightarrow> (World \<Rightarrow> World) \<Rightarrow> World \<Rightarrow> World" where
  "onChange c f w = (if c then f w else w)"

definition commitDeps :: "World \<Rightarrow> World" where
  "commitDeps w = w\<lparr>committed := Some (props w, state w)\<rparr>"

text \<open>
  The effects of one commit, on the world \<open>r\<close> whose refs are already attached: the
  cleanups of the effects whose dependencies changed, then the bodies of those effects
  (on the first render, of all effects), in the order of the source.
\<close>

definition runEffects :: "World \<Rightarrow> World" where
  "runEffects r =
     (let first = (committed r = None);
          cv = changed depsVolume r;
          cm = changed depsMuted r;
          cr = changed depsRate r;
          ci = changed depsInit r;
          cc = changed depsControls r;
          ck = changed depsKeyboard r
      in foldl (\<lambda>x f. f x) r
           [onChange (ci \<and> \<not> first) runInitCleanup,
            onChange (cc \<and> \<not> first) runControlsCleanup,
            onChange (ck \<and> \<not> first) keyboardCleanup,
            onChange cv volumeEffect,
            onChange cm mutedEffect,
            onChange cr rateEffect,
            onChange ci initEffect,
            onChange cc controlsEffect,
            onChange first fullscreenEffect,
            onChange ck keyboardEffect])"

definition rerender :: "World \<Rightarrow> World" where
  "rerender w =
     (if \<not> mounted w then w
      else attachRefs (commitDeps (runEffects (attachRefs w))))"

text \<open>
  Mounting: the first render with the given props, on a platform where
  \<open>Hls.isSupported()\<close> is \<open>hs\<close> and the element plays HLS natively iff \<open>nh\<close>.
\<close>

definition mount :: "Props \<Rightarrow> bool \<Rightarrow> bool \<Rightarrow> World" where
  "mount p hs nh =
     rerender
       \<lparr>props = p, state = initialState, mounted = True, committed = None, video = newVideo,
        videoRef = False, hlsRef = None, controlsTimeoutRef = None,
        containerListeners = None, keydownListener = None, fullscreenListener = False,
        initCleanup = False, controlsCleanup = False, hlsSupported = hs,
        canPlayNativeHls = nh, fullscreenElement = False, calls = []\<rparr>"

text \<open>Unmounting runs every cleanup that is registered and detaches the refs.\<close>

definition unmount :: "World \<Rightarrow> World" where
  "unmount w =
     (keyboardCleanup (runControlsCleanup (runInitCleanup w)))
       \<lparr>fullscreenListener := False, initCleanup := False, controlsCleanup := False,
        mounted := False, videoRef := False\<rparr>"

subsection \<open>Events\<close>

text \<open>
  What can happen to a mounted controller. A media event carries what the platform has
  written to the element before it fires the event. \<open>TimeoutFires\<close> is the platform
  running a pending timer, which it never does before the timer is due.
  \<open>HlsManifestParsed\<close> is the engine's manifest-parsed signal.
\<close>

datatype Event =
    LoadStart
  | LoadedMetadata real
  | CanPlay
  | Play
  | Pause
  | Waiting
  | Playing
  | TimeUpdate real "(real \<times> real) list"
  | VolumeChange
  | MediaError "string option"
  | Ended
  | HlsError ErrorData
  | HlsManifestParsed
  | MouseMove
  | MouseEnter
  | MouseLeave
  | TimeoutFires
  | FullscreenChange bool
  | KeyDown string
  | VideoClick
  | VideoDoubleClick
  | BackClick
  | ProgressBarClick real
  | ScrubberChange real
  | ScrubberMouseUp
  | ScrubberTouchEnd
  | PlayPauseClick
  | MuteClick
  | VolumeSlider real
  | FullscreenClick
  | SpeedSelect real
  | AutoPlayNextClick
  | SetProps Props
  | Unmount

text \<open>A media event reaches the listeners that are registered on the element, if any.\<close>

definition media :: "(Listeners \<Rightarrow> World \<Rightarrow> World) \<Rightarrow> World \<Rightarrow> World" where
  "media h w = (case listeners (video w) of None \<Rightarrow> w | Some l \<Rightarrow> h l w)"

text \<open>
  A handler bound in the markup exists while the player view is rendered; the auto-play
  switch is rendered for episodes only (line 769).
\<close>

definition markup :: "(World \<Rightarrow> World) \<Rightarrow> World \<Rightarrow> World" where
  "markup h w = (if videoRef w then h w else w)"

definition container :: "(bool \<Rightarrow> World \<Rightarrow> World) \<Rightarrow> World \<Rightarrow> World" where
  "container h w = (case containerListeners w of None \<Rightarrow> w | Some c \<Rightarrow> h c w)"

definition fireTimeout :: "nat \<Rightarrow> World \<Rightarrow> World" where
  "fireTimeout now w =
     (case controlsTimeoutRef w of
        None \<Rightarrow> w
      | Some t \<Rightarrow>
          if pending t \<and> due t \<le> now
          then timeoutCallback (t_isPlaying t)
                 (w\<lparr>controlsTimeoutRef := Some (t\<lparr>pending := False\<rparr>)\<rparr>)
          else w)"

fun dispatch :: "nat \<Rightarrow> Event \<Rightarrow> World \<Rightarrow> World" where
  "dispatch now LoadStart w = media (\<lambda>l. handleLoadStart) w"
| "dispatch now (LoadedMetadata d) w =
     media (\<lambda>l. handleLoadedMetadata) (w\<lparr>video := (video w)\<lparr>v_duration := d\<rparr>\<rparr>)"
| "dispatch now CanPlay w = media (\<lambda>l. handleCanPlay) w"
| "dispatch now Play w = media (\<lambda>l. handlePlay) w"
| "dispatch now Pause w = media (\<lambda>l. handlePause) w"
| "dispatch now Waiting w = media (\<lambda>l. handleWaiting) w"
| "dispatch now Playing w = media (\<lambda>l. handlePlaying) w"
| "dispatch now (TimeUpdate t b) w =
     media (\<lambda>l. updateProgress (l_isDragging l))
       (w\<lparr>video := (video w)\<lparr>v_currentTime := t, v_buffered := b\<rparr>\<rparr>)"
| "dispatch now VolumeChange w = media (\<lambda>l. handleVolumeChange) w"
| "dispatch now (MediaError m) w =
     media (\<lambda>l. handleError) (w\<lparr>video := (video w)\<lparr>v_error := m\<rparr>\<rparr>)"
| "dispatch now Ended w = media handleEnded w"
| "dispatch now (HlsError d) w =
     (case hlsRef w of None \<Rightarrow> w
      | Some h \<Rightarrow> if ERROR \<in> set (handlers h) then hlsOnError d w else w)"
| "dispatch now HlsManifestParsed w = w"
| "dispatch now MouseMove w = container (\<lambda>c. showControlsWithTimeout c now) w"
| "dispatch now MouseEnter w = container (\<lambda>c. handleMouseEnter) w"
| "dispatch now MouseLeave w = container handleMouseLeave w"
| "dispatch now TimeoutFires w = fireTimeout now w"
| "dispatch now (FullscreenChange b) w =
     (let w1 = w\<lparr>fullscreenElement := b\<rparr>
      in if fullscreenListener w1 then handleFullscreenChange w1 else w1)"
| "dispatch now (KeyDown key) w =
     (case keydownListener w of None \<Rightarrow> w | Some k \<Rightarrow> handleKeyDown k key w)"
| "dispatch now VideoClick w = markup (togglePlayPause (isPlaying (state w))) w"
| "dispatch now VideoDoubleClick w = markup toggleFullscreen w"
| "dispatch now BackClick w = markup (call OnBack) w"
| "dispatch now (ProgressBarClick pos) w = markup (progressBarClick pos) w"
| "dispatch now (ScrubberChange v) w = markup (scrubberChange v) w"
| "dispatch now ScrubberMouseUp w = markup scrubberRelease w"
| "dispatch now ScrubberTouchEnd w = markup scrubberRelease w"
| "dispatch now PlayPauseClick w = markup (togglePlayPause (isPlaying (state w))) w"
| "dispatch now MuteClick w = markup toggleMute w"
| "dispatch now (VolumeSlider v) w = markup (changeVolume v) w"
| "dispatch now FullscreenClick w = markup toggleFullscreen w"
| "dispatch now (SpeedSelect r) w = markup (changePlaybackRate r) w"
| "dispatch now AutoPlayNextClick w =
     (if streamType (props w) = Episode
      then markup (setAutoPlayNext (\<not> autoPlayNext (state w))) w
      else w)"
| "dispatch now (SetProps p) w = w\<lparr>props := p\<rparr>"
| "dispatch now Unmount w = unmount w"

definition step :: "nat \<Rightarrow> Event \<Rightarrow> World \<Rightarrow> World" where
  "step now e w = rerender (dispatch now e w)"

fun run :: "(nat \<times> Event) list \<Rightarrow> World \<Rightarrow> World" where
  "run [] w = w"
| "run ((now, e) # es) w = run es (step now e w)"

subsection \<open>Observations on runs\<close>

text \<open>The positions assigned to the element's \<open>currentTime\<close> (the seeks), in order.\<close>

fun seeks :: "Call list \<Rightarrow> real list" where
  "seeks [] = []"
| "seeks (VideoSetCurrentTime t # cs) = t # seeks cs"
| "seeks (c # cs) = seeks cs"

text \<open>The time of the last pointer move of a run, if there was one.\<close>

fun lastMouseMove :: "(nat \<times> Event) list \<Rightarrow> nat option" where
  "lastMouseMove [] = None"
| "lastMouseMove ((now, e) # es) =
     (case lastMouseMove es of
        Some m \<Rightarrow> Some m
      | None \<Rightarrow> if e = MouseMove then Some now else None)"

text \<open>Whether a run contains a \<open>loadedmetadata\<close> event.\<close>

fun isLoadedMetadata :: "Event \<Rightarrow> bool" where
  "isLoadedMetadata (LoadedMetadata d) = True"
| "isLoadedMetadata e = False"

definition noMetadata :: "(nat \<times> Event) list \<Rightarrow> bool" where
  "noMetadata tr = list_all (\<lambda>x. \<not> isLoadedMetadata (snd x)) tr"

section \<open>Verification\<close>

subsection \<open>Unfolding the model\<close>

lemmas handler_defs =
  updateProgress_def togglePlayPause_def toggleMute_def changeVolume_def seek_def
  toggleFullscreen_def changePlaybackRate_def handleLoadStart_def handleLoadedMetadata_def
  handleCanPlay_def handlePlay_def handlePause_def handleWaiting_def handlePlaying_def
  handleVolumeChange_def handleError_def handleEnded_def hlsOnError_def
  showControlsWithTimeout_def timeoutCallback_def handleMouseEnter_def handleMouseLeave_def
  handleFullscreenChange_def handleKeyDown_def progressBarClick_def scrubberChange_def
  scrubberRelease_def clearTimeout_def fireTimeout_def media_def markup_def container_def

lemmas effect_defs =
  volumeEffect_def mutedEffect_def rateEffect_def initEffect_def controlsEffect_def
  keyboardEffect_def fullscreenEffect_def initCleanupFn_def controlsCleanupFn_def
  runInitCleanup_def runControlsCleanup_def keyboardCleanup_def commitDeps_def attachRefs_def
  endsWith_def truthy_def noConfig_def

lemmas render_defs =
  rerender_def runEffects_def onChange_def changed_def depsVolume_def depsMuted_def depsRate_def
  depsInit_def depsControls_def depsKeyboard_def step_def mount_def unmount_def
  initialState_def newVideo_def Let_def

lemmas model_defs = setters handler_defs effect_defs render_defs

subsection \<open>The commands\<close>

text \<open>
  C9. \<open>toggleMute()\<close> is an involution on the muted flag: applied twice it gives back the
  world it started from, with or without an element, so the element's \<open>muted\<close> flag is the
  one it started with; and the \<open>isMuted\<close> cell, which \<open>handleVolumeChange\<close> mirrors from
  the element after each toggle, is back at its original value whenever it mirrored the
  element to begin with.
\<close>

theorem toggleMute_involution:
  "toggleMute (toggleMute w) = w
   \<and> v_muted (video (toggleMute (toggleMute w))) = v_muted (video w)
   \<and> (isMuted (state w) = v_muted (video w) \<longrightarrow>
        isMuted (state (handleVolumeChange (toggleMute (handleVolumeChange (toggleMute w)))))
          = isMuted (state w))"
  by (cases "videoRef w") (simp_all add: toggleMute_def handleVolumeChange_def setters)

theorem toggleMute_involution_witness:
  "isMuted (state (mount \<lparr>streamUrl = ''a.mp4'', streamType = Movie, episodeData = None\<rparr> True False))
     = v_muted (video (mount \<lparr>streamUrl = ''a.mp4'', streamType = Movie, episodeData = None\<rparr> True False))
   \<and> isMuted (state (handleVolumeChange (toggleMute (handleVolumeChange (toggleMute
        (mount \<lparr>streamUrl = ''a.mp4'', streamType = Movie, episodeData = None\<rparr> True False))))))
     = False"
  using toggleMute_involution
    [of "mount \<lparr>streamUrl = ''a.mp4'', streamType = Movie, episodeData = None\<rparr> True False"]
  by (simp add: model_defs)

end
